theory Spec2Isabelle
  imports Complex_Main "HOL-Library.Sublist"
begin

section \<open>Paper dictionaries\<close>

text \<open>
  Both analyzers work on the paper dictionaries that \<open>search_papers\<close> builds: nine keys
  with string or string-list values. \<open>batch_analyze_papers\<close> adds a tenth key,
  \<open>"analysis"\<close>; a dictionary without that key has \<open>analysis = None\<close>.
  A \<open>char\<close> stands for one character of a Python \<open>str\<close>.
\<close>

record paper =
  title :: string
  authors :: "string list"
  summary :: string
  published :: string
  updated :: string
  arxiv_id :: string
  pdf_url :: string
  categories :: "string list"
  primary_category :: string
  analysis :: "string option"

section \<open>Python built-ins used by the analyzers\<close>

text \<open>\<open>sep.join(xs)\<close>\<close>

fun join :: "string \<Rightarrow> string list \<Rightarrow> string" where
  "join sep [] = []"
| "join sep [x] = x"
| "join sep (x # y # ys) = x @ sep @ join sep (y # ys)"

text \<open>\<open>str(n)\<close> for an integer: the decimal digits, with a sign for negative numbers.\<close>

fun str_nat :: "nat \<Rightarrow> string" where
  "str_nat n =
     (if n < 10 then [''0123456789'' ! n]
      else str_nat (n div 10) @ [''0123456789'' ! (n mod 10)])"

declare str_nat.simps [simp del]

definition str_int :: "int \<Rightarrow> string" where
  "str_int i = (if i < 0 then ''-'' @ str_nat (nat (- i)) else str_nat (nat i))"

text \<open>
  Exceptions. \<open>ValueError\<close> is raised by \<open>compare_papers\<close> itself, \<open>KeyError\<close> by a
  dictionary subscript, and \<open>ProviderError reason\<close> stands for any exception that the
  generation backend raises, \<open>reason\<close> being its \<open>str()\<close>. All three are subclasses of
  \<open>Exception\<close>, so \<open>except Exception\<close> catches each of them.
\<close>

datatype exn = ValueError string | KeyError string | ProviderError string

fun str_exn :: "exn \<Rightarrow> string" where
  "str_exn (ValueError m) = m"
| "str_exn (KeyError k) = [CHR 0x27] @ k @ [CHR 0x27]"
| "str_exn (ProviderError reason) = reason"

text \<open>A dictionary literal is an association list; \<open>d[k]\<close> raises on a missing key,
  \<open>d.get(k, default)\<close> does not.\<close>

definition dict_getitem :: "(string \<times> 'v) list \<Rightarrow> string \<Rightarrow> exn + 'v" where
  "dict_getitem d k = (case map_of d k of None \<Rightarrow> Inl (KeyError k) | Some v \<Rightarrow> Inr v)"

definition dict_get :: "(string \<times> 'v) list \<Rightarrow> string \<Rightarrow> 'v \<Rightarrow> 'v" where
  "dict_get d k dflt = (case map_of d k of None \<Rightarrow> dflt | Some v \<Rightarrow> v)"

section \<open>The generation backend and the program state\<close>

record generation_config =
  temperature :: real
  top_p :: real
  top_k :: nat
  max_output_tokens :: nat

text \<open>
  The two requests of the source: \<open>client.messages.create(model, max_tokens, messages)\<close>
  of the Anthropic client, with \<open>messages\<close> a list of (role, content) pairs, and
  \<open>model.generate_content(prompt, generation_config)\<close> of the Gemini model, whose
  configuration is optional.
\<close>

datatype request =
    MessagesCreate string nat "(string \<times> string) list"
  | GenerateContent string "generation_config option"

text \<open>
  A backend is a black box with a hidden state \<open>'w\<close>: given a request it answers with the
  generated text (\<open>message.content[0].text\<close>, \<open>response.text\<close>) or fails with a reason,
  and moves to a new hidden state. Two equal requests may get different answers.
\<close>

type_synonym 'w provider = "'w \<Rightarrow> request \<Rightarrow> (string + string) \<times> 'w"

text \<open>
  The state of a run: the backend's hidden state, the requests sent so far, the lines
  printed to the console, and the store of paper dictionaries (\<open>heap\<close> maps an address to
  the dictionary stored there; the addresses below \<open>next_addr\<close> are allocated).
\<close>

record 'w state =
  backend :: 'w
  sent :: "request list"
  console :: "string list"
  heap :: "nat \<Rightarrow> paper"
  next_addr :: nat

definition call :: "'w provider \<Rightarrow> request \<Rightarrow> 'w state \<Rightarrow> (exn + string) \<times> 'w state" where
  "call prov req s =
     (case prov (backend s) req of
        (Inl reason, w) \<Rightarrow> (Inl (ProviderError reason), s\<lparr>backend := w, sent := sent s @ [req]\<rparr>)
      | (Inr text, w) \<Rightarrow> (Inr text, s\<lparr>backend := w, sent := sent s @ [req]\<rparr>))"

definition py_print :: "string \<Rightarrow> 'w state \<Rightarrow> 'w state" where
  "py_print line s = s\<lparr>console := console s @ [line]\<rparr>"

text \<open>\<open>paper.copy()\<close> allocates a new dictionary with the same items.\<close>

definition dict_copy :: "nat \<Rightarrow> 'w state \<Rightarrow> nat \<times> 'w state" where
  "dict_copy a s =
     (next_addr s, s\<lparr>heap := (heap s)(next_addr s := heap s a), next_addr := Suc (next_addr s)\<rparr>)"

text \<open>\<open>analyzed_paper["analysis"] = v\<close>\<close>

definition set_analysis :: "nat \<Rightarrow> string \<Rightarrow> 'w state \<Rightarrow> 'w state" where
  "set_analysis c v s = s\<lparr>heap := (heap s)(c := (heap s c)\<lparr>analysis := Some v\<rparr>)\<rparr>"

section \<open>Prompt construction (the same text in both analyzers)\<close>

definition paper_content :: "paper \<Rightarrow> string" where
  "paper_content paper =
     ''\<newline>Title: '' @ title paper @
     ''\<newline>\<newline>Authors: '' @ join '', '' (authors paper) @
     ''\<newline>\<newline>Published: '' @ published paper @
     ''\<newline>\<newline>Categories: '' @ join '', '' (categories paper) @
     ''\<newline>\<newline>Abstract:\<newline>'' @ summary paper @ ''\<newline>''"

definition prompts :: "(string \<times> string) list" where
  "prompts =
     [(''summary'', ''Please provide a concise summary of this paper, highlighting the main contributions and findings.''),
      (''key_findings'', ''What are the key findings and contributions of this paper? List them clearly.''),
      (''methodology'', ''Analyze the methodology used in this paper. What approaches did the authors take?''),
      (''critique'', ''Provide a balanced critique of this paper, discussing both strengths and potential limitations.'')]"

text \<open>
  \<open>custom_prompt or prompts.get(analysis_type, prompts["summary"])\<close>: \<open>or\<close> takes its
  right operand when the left one is falsy, that is \<open>None\<close> or the empty string, and
  evaluates it only then.
\<close>

definition analysis_prompt :: "string option \<Rightarrow> string \<Rightarrow> exn + string" where
  "analysis_prompt custom_prompt analysis_type =
     (case custom_prompt of
        Some c \<Rightarrow>
          if c \<noteq> [] then Inr c
          else (case dict_getitem prompts ''summary'' of
                  Inl e \<Rightarrow> Inl e
                | Inr d \<Rightarrow> Inr (dict_get prompts analysis_type d))
      | None \<Rightarrow>
          (case dict_getitem prompts ''summary'' of
             Inl e \<Rightarrow> Inl e
           | Inr d \<Rightarrow> Inr (dict_get prompts analysis_type d)))"

definition full_prompt :: "paper \<Rightarrow> string \<Rightarrow> string option \<Rightarrow> exn + string" where
  "full_prompt paper analysis_type custom_prompt =
     (case analysis_prompt custom_prompt analysis_type of
        Inl e \<Rightarrow> Inl e
      | Inr ap \<Rightarrow> Inr (paper_content paper @ ''\<newline>\<newline>'' @ ap))"

text \<open>The loop of \<open>compare_papers\<close> over \<open>enumerate(papers, 1)\<close>.\<close>

fun papers_text_loop :: "nat \<Rightarrow> paper list \<Rightarrow> string \<Rightarrow> string" where
  "papers_text_loop i [] papers_text = papers_text"
| "papers_text_loop i (paper # rest) papers_text =
     papers_text_loop (Suc i) rest
       (papers_text @
        ''\<newline>Paper '' @ str_nat i @
        '':\<newline>Title: '' @ title paper @
        ''\<newline>Authors: '' @ join '', '' (authors paper) @
        ''\<newline>Abstract: '' @ summary paper @
        ''\<newline>\<newline>---\<newline>'')"

definition compare_prompt :: "paper list \<Rightarrow> string" where
  "compare_prompt papers =
     ''Here are '' @ str_nat (length papers) @
     '' research papers. Please compare them by:\<newline>\<newline>1. Identifying common themes and research directions\<newline>2. Highlighting key differences in approach or findings\<newline>3. Discussing how these papers relate to each other\<newline>4. Noting any complementary or contradictory findings\<newline>\<newline>Papers:\<newline>'' @
     papers_text_loop 1 papers [] @
     ''\<newline>\<newline>Please provide a comparative analysis:''"

definition concepts_prompt :: "paper list \<Rightarrow> int \<Rightarrow> string" where
  "concepts_prompt papers max_concepts =
     ''Analyze these research paper abstracts and extract the '' @ str_int max_concepts @
     '' most important \<newline>technical concepts, methods, or themes. For each concept, provide a brief explanation.\<newline>\<newline>Format your response as a numbered list:\<newline>1. Concept Name: Brief explanation\<newline>2. Concept Name: Brief explanation\<newline>...\<newline>\<newline>Abstracts:\<newline>'' @
     join ''\<newline>\<newline>'' (map (\<lambda>p. ''Paper: '' @ title p @ ''\<newline>'' @ summary p) papers) @
     ''\<newline>''"


section \<open>\<open>ArxivAnalyzer\<close> (Anthropic backend)\<close>

definition ArxivAnalyzer_analyze_paper ::
  "'w provider \<Rightarrow> paper \<Rightarrow> string \<Rightarrow> string option \<Rightarrow> 'w state \<Rightarrow> (exn + string) \<times> 'w state" where
  "ArxivAnalyzer_analyze_paper prov paper analysis_type custom_prompt s =
     (case full_prompt paper analysis_type custom_prompt of
        Inl e \<Rightarrow> (Inl e, s)
      | Inr fp \<Rightarrow> call prov (MessagesCreate ''claude-sonnet-4-20250514'' 2000 [(''user'', fp)]) s)"

text \<open>
  The loop of \<open>batch_analyze_papers\<close>: \<open>papers\<close> is a list of addresses of paper
  dictionaries. There is no \<open>try\<close>: an exception of \<open>analyze_paper\<close> leaves the loop and
  the function, and the list built so far is lost.
\<close>

fun ArxivAnalyzer_batch_loop ::
  "'w provider \<Rightarrow> string \<Rightarrow> nat list \<Rightarrow> nat list \<Rightarrow> 'w state \<Rightarrow> (exn + nat list) \<times> 'w state" where
  "ArxivAnalyzer_batch_loop prov analysis_type [] analyzed_papers s = (Inr analyzed_papers, s)"
| "ArxivAnalyzer_batch_loop prov analysis_type (a # rest) analyzed_papers s =
     (let paper = heap s a;
          s1 = py_print (''Analyzing: '' @ take 60 (title paper) @ ''...'') s
      in case ArxivAnalyzer_analyze_paper prov paper analysis_type None s1 of
           (Inl e, s2) \<Rightarrow> (Inl e, s2)
         | (Inr analysis_text, s2) \<Rightarrow>
             (let (analyzed_paper, s3) = dict_copy a s2;
                  s4 = set_analysis analyzed_paper analysis_text s3
              in ArxivAnalyzer_batch_loop prov analysis_type rest
                   (analyzed_papers @ [analyzed_paper]) s4))"

definition ArxivAnalyzer_batch_analyze_papers ::
  "'w provider \<Rightarrow> nat list \<Rightarrow> string \<Rightarrow> 'w state \<Rightarrow> (exn + nat list) \<times> 'w state" where
  "ArxivAnalyzer_batch_analyze_papers prov papers analysis_type s =
     ArxivAnalyzer_batch_loop prov analysis_type papers [] s"

definition ArxivAnalyzer_compare_papers ::
  "'w provider \<Rightarrow> paper list \<Rightarrow> 'w state \<Rightarrow> (exn + string) \<times> 'w state" where
  "ArxivAnalyzer_compare_papers prov papers s =
     (if length papers < 2 then (Inl (ValueError ''Need at least 2 papers to compare''), s)
      else call prov
             (MessagesCreate ''claude-sonnet-4-20250514'' 3000 [(''user'', compare_prompt papers)]) s)"

section \<open>\<open>ArxivAnalyzerGemini\<close> (Gemini backend)\<close>

definition ArxivAnalyzerGemini_analyze_paper ::
  "'w provider \<Rightarrow> paper \<Rightarrow> string \<Rightarrow> string option \<Rightarrow> real \<Rightarrow> 'w state \<Rightarrow>
     (exn + string) \<times> 'w state" where
  "ArxivAnalyzerGemini_analyze_paper prov paper analysis_type custom_prompt temp s =
     (case full_prompt paper analysis_type custom_prompt of
        Inl e \<Rightarrow> (Inl e, s)
      | Inr fp \<Rightarrow>
          call prov
            (GenerateContent fp
               (Some \<lparr>temperature = temp, top_p = 0.95, top_k = 40, max_output_tokens = 2048\<rparr>)) s)"

text \<open>
  The loop of \<open>batch_analyze_papers\<close> over \<open>enumerate(papers, 1)\<close>, \<open>n\<close> being
  \<open>len(papers)\<close>. The call of \<open>analyze_paper\<close> is inside \<open>try\<close>, and the handler of
  \<open>except Exception as e\<close> stores \<open>"Error: " + str(e)\<close> in a copy of the paper.
\<close>

fun ArxivAnalyzerGemini_batch_loop ::
  "'w provider \<Rightarrow> string \<Rightarrow> real \<Rightarrow> nat \<Rightarrow> nat \<Rightarrow> nat list \<Rightarrow> nat list \<Rightarrow> 'w state \<Rightarrow>
     nat list \<times> 'w state" where
  "ArxivAnalyzerGemini_batch_loop prov analysis_type temp n i [] analyzed_papers s =
     (analyzed_papers, s)"
| "ArxivAnalyzerGemini_batch_loop prov analysis_type temp n i (a # rest) analyzed_papers s =
     (let paper = heap s a;
          s1 = py_print (''Analyzing '' @ str_nat i @ ''/'' @ str_nat n @ '': '' @
                         take 60 (title paper) @ ''...'') s
      in case ArxivAnalyzerGemini_analyze_paper prov paper analysis_type None temp s1 of
           (Inr analysis_text, s2) \<Rightarrow>
             (let (analyzed_paper, s3) = dict_copy a s2;
                  s4 = set_analysis analyzed_paper analysis_text s3
              in ArxivAnalyzerGemini_batch_loop prov analysis_type temp n (Suc i) rest
                   (analyzed_papers @ [analyzed_paper]) s4)
         | (Inl e, s2) \<Rightarrow>
             (let s3 = py_print (''Error analyzing paper: '' @ str_exn e) s2;
                  (analyzed_paper, s4) = dict_copy a s3;
                  s5 = set_analysis analyzed_paper (''Error: '' @ str_exn e) s4
              in ArxivAnalyzerGemini_batch_loop prov analysis_type temp n (Suc i) rest
                   (analyzed_papers @ [analyzed_paper]) s5))"

definition ArxivAnalyzerGemini_batch_analyze_papers ::
  "'w provider \<Rightarrow> nat list \<Rightarrow> string \<Rightarrow> real \<Rightarrow> 'w state \<Rightarrow> nat list \<times> 'w state" where
  "ArxivAnalyzerGemini_batch_analyze_papers prov papers analysis_type temp s =
     ArxivAnalyzerGemini_batch_loop prov analysis_type temp (length papers) 1 papers [] s"

definition ArxivAnalyzerGemini_compare_papers ::
  "'w provider \<Rightarrow> paper list \<Rightarrow> real \<Rightarrow> 'w state \<Rightarrow> (exn + string) \<times> 'w state" where
  "ArxivAnalyzerGemini_compare_papers prov papers temp s =
     (if length papers < 2 then (Inl (ValueError ''Need at least 2 papers to compare''), s)
      else call prov
             (GenerateContent (compare_prompt papers)
                (Some \<lparr>temperature = temp, top_p = 0.95, top_k = 40, max_output_tokens = 3072\<rparr>)) s)"

definition ArxivAnalyzerGemini_extract_key_concepts ::
  "'w provider \<Rightarrow> paper list \<Rightarrow> int \<Rightarrow> 'w state \<Rightarrow> (exn + string) \<times> 'w state" where
  "ArxivAnalyzerGemini_extract_key_concepts prov papers max_concepts s =
     call prov (GenerateContent (concepts_prompt papers max_concepts) None) s"

section \<open>Notions used to state the properties\<close>

text \<open>The answers of a backend to a sequence of requests, sent one after the other.\<close>

fun responses :: "'w provider \<Rightarrow> request list \<Rightarrow> 'w \<Rightarrow> (string + string) list" where
  "responses prov [] w = []"
| "responses prov (req # reqs) w = (case prov w req of (r, w') \<Rightarrow> r # responses prov reqs w')"

text \<open>The template that \<open>prompts["summary"]\<close> yields.\<close>

definition summary_template :: string where
  "summary_template = dict_get prompts ''summary'' []"

definition gemini_req :: "paper \<Rightarrow> string \<Rightarrow> real \<Rightarrow> request" where
  "gemini_req paper analysis_type temp =
     GenerateContent
       (paper_content paper @ ''\<newline>\<newline>'' @ dict_get prompts analysis_type summary_template)
       (Some \<lparr>temperature = temp, top_p = 0.95, top_k = 40, max_output_tokens = 2048\<rparr>)"

definition batch_entry :: "paper \<Rightarrow> string + string \<Rightarrow> paper" where
  "batch_entry p r =
     p\<lparr>analysis := Some (case r of Inl reason \<Rightarrow> ''Error: '' @ reason | Inr txt \<Rightarrow> txt)\<rparr>"

definition gemini_iter ::
  "'w provider \<Rightarrow> string \<Rightarrow> real \<Rightarrow> nat \<Rightarrow> nat \<Rightarrow> nat \<Rightarrow> 'w state \<Rightarrow> 'w state" where
  "gemini_iter prov analysis_type temp n i a s =
     (let s1 = py_print (''Analyzing '' @ str_nat i @ ''/'' @ str_nat n @ '': '' @
                         take 60 (title (heap s a)) @ ''...'') s;
          (r, s2) = call prov (gemini_req (heap s a) analysis_type temp) s1;
          s3 = (case r of Inl e \<Rightarrow> py_print (''Error analyzing paper: '' @ str_exn e) s2
                | Inr txt \<Rightarrow> s2);
          v = (case r of Inl e \<Rightarrow> ''Error: '' @ str_exn e | Inr txt \<Rightarrow> txt)
      in set_analysis (fst (dict_copy a s3)) v (snd (dict_copy a s3)))"

definition anthropic_req :: "paper \<Rightarrow> string \<Rightarrow> request" where
  "anthropic_req paper analysis_type =
     MessagesCreate ''claude-sonnet-4-20250514'' 2000
       [(''user'', paper_content paper @ ''\<newline>\<newline>'' @
                   dict_get prompts analysis_type summary_template)]"

definition anthropic_iter :: "'w provider \<Rightarrow> string \<Rightarrow> nat \<Rightarrow> 'w state \<Rightarrow> 'w state" where
  "anthropic_iter prov analysis_type a s =
     (let s1 = py_print (''Analyzing: '' @ take 60 (title (heap s a)) @ ''...'') s;
          (r, s2) = call prov (anthropic_req (heap s a) analysis_type) s1
      in case r of Inl e \<Rightarrow> s2
         | Inr answer \<Rightarrow> set_analysis (fst (dict_copy a s2)) answer (snd (dict_copy a s2)))"

text \<open>The block that the loop of \<open>compare_papers\<close> appends for the \<open>i\<close>-th paper.\<close>

definition paper_block :: "nat \<Rightarrow> paper \<Rightarrow> string" where
  "paper_block i paper =
     ''\<newline>Paper '' @ str_nat i @
     '':\<newline>Title: '' @ title paper @
     ''\<newline>Authors: '' @ join '', '' (authors paper) @
     ''\<newline>Abstract: '' @ summary paper @
     ''\<newline>\<newline>---\<newline>''"

section \<open>A concrete run: three papers and a backend that fails on its second request\<close>

definition paper_A :: paper where
  "paper_A = \<lparr>title = ''Paper A'', authors = [''Ada'', ''Alan''], summary = ''Abstract A.'',
     published = ''2024-01-02'', updated = ''2024-01-03'', arxiv_id = ''2401.00001v1'',
     pdf_url = ''http://arxiv.org/pdf/2401.00001v1'', categories = [''cs.AI'', ''cs.LG''],
     primary_category = ''cs.AI'', analysis = None\<rparr>"

definition paper_B :: paper where
  "paper_B = \<lparr>title = ''Paper B'', authors = [''Barbara''], summary = ''Abstract B.'',
     published = ''2024-02-02'', updated = ''2024-02-03'', arxiv_id = ''2402.00002v1'',
     pdf_url = ''http://arxiv.org/pdf/2402.00002v1'', categories = [''cs.CL''],
     primary_category = ''cs.CL'', analysis = None\<rparr>"

definition paper_C :: paper where
  "paper_C = \<lparr>title = ''Paper C'', authors = [''Claude'', ''Carl''], summary = ''Abstract C.'',
     published = ''2024-03-02'', updated = ''2024-03-03'', arxiv_id = ''2403.00003v2'',
     pdf_url = ''http://arxiv.org/pdf/2403.00003v2'', categories = [''math.OC''],
     primary_category = ''math.OC'', analysis = None\<rparr>"

definition example_heap :: "nat \<Rightarrow> paper" where
  "example_heap a = (if a = 0 then paper_A else if a = 1 then paper_B else paper_C)"

definition example_state :: "nat state" where
  "example_state = \<lparr>backend = 0, sent = [], console = [], heap = example_heap, next_addr = 3\<rparr>"

text \<open>The hidden state of the stub backend counts the requests it has received.\<close>

definition stub_provider :: "nat provider" where
  "stub_provider w req =
     (if w = 0 then Inr ''Text one.'' else if w = 1 then Inl ''quota exceeded''
      else Inr ''Text three.'', Suc w)"

section \<open>Auxiliary lemmas\<close>

lemma dict_getitem_summary: "dict_getitem prompts ''summary'' = Inr summary_template"
  by (simp add: dict_getitem_def dict_get_def summary_template_def prompts_def)

lemma analysis_prompt_None:
  "analysis_prompt None analysis_type = Inr (dict_get prompts analysis_type summary_template)"
  by (simp add: analysis_prompt_def dict_getitem_summary)

lemma full_prompt_None:
  "full_prompt paper analysis_type None =
     Inr (paper_content paper @ ''\<newline>\<newline>'' @ dict_get prompts analysis_type summary_template)"
  by (simp add: full_prompt_def analysis_prompt_None)

lemma gemini_analyze_None:
  "ArxivAnalyzerGemini_analyze_paper prov paper analysis_type None temp s =
     call prov (gemini_req paper analysis_type temp) s"
  by (simp add: ArxivAnalyzerGemini_analyze_paper_def full_prompt_None gemini_req_def)

lemma gemini_loop_Cons:
  "ArxivAnalyzerGemini_batch_loop prov analysis_type temp n i (a # rest) acc s =
     ArxivAnalyzerGemini_batch_loop prov analysis_type temp n (Suc i) rest (acc @ [next_addr s])
       (gemini_iter prov analysis_type temp n i a s)"
proof -
  let ?s1 = "py_print (''Analyzing '' @ str_nat i @ ''/'' @ str_nat n @ '': '' @
                         take 60 (title (heap s a)) @ ''...'') s"
  obtain r s2 where c: "call prov (gemini_req (heap s a) analysis_type temp) ?s1 = (r, s2)"
    by (cases "call prov (gemini_req (heap s a) analysis_type temp) ?s1")
  have n2: "next_addr s2 = next_addr s"
    using c by (auto simp: call_def py_print_def split: prod.splits sum.splits)
  show ?thesis
  proof (cases r)
    case (Inl e)
    with c n2 show ?thesis
      by (simp add: gemini_analyze_None gemini_iter_def Let_def dict_copy_def py_print_def
            split: prod.split)
  next
    case (Inr answer)
    with c n2 show ?thesis
      by (simp add: gemini_analyze_None gemini_iter_def Let_def dict_copy_def split: prod.split)
  qed
qed

lemma gemini_iter_fields:
  "backend (gemini_iter prov k t n i a s) = snd (prov (backend s) (gemini_req (heap s a) k t))"
  "sent (gemini_iter prov k t n i a s) = sent s @ [gemini_req (heap s a) k t]"
  "next_addr (gemini_iter prov k t n i a s) = Suc (next_addr s)"
  "heap (gemini_iter prov k t n i a s) =
     (heap s)(next_addr s := batch_entry (heap s a) (fst (prov (backend s) (gemini_req (heap s a) k t))))"
  by (cases "prov (backend s) (gemini_req (heap s a) k t)";
      cases "fst (prov (backend s) (gemini_req (heap s a) k t))";
      simp add: gemini_iter_def Let_def call_def py_print_def dict_copy_def set_analysis_def
        batch_entry_def)+

lemma upt_shift: "[m..<m + Suc k] = m # [Suc m..<Suc m + k]"
proof -
  have "[m..<m + Suc k] = m # [Suc m..<m + Suc k]"
    by (rule upt_conv_Cons) simp
  then show ?thesis by simp
qed

lemma gemini_loop_fst:
  "fst (ArxivAnalyzerGemini_batch_loop prov k t n i ps acc s) =
     acc @ [next_addr s..<next_addr s + length ps]"
proof (induction ps arbitrary: i acc s)
  case Nil
  show ?case by simp
next
  case (Cons a ps)
  show ?case
    unfolding gemini_loop_Cons Cons.IH
    using upt_shift [of "next_addr s" "length ps"]
    by (simp add: gemini_iter_fields del: upt_Suc)
qed

lemma gemini_loop_next_addr:
  "next_addr (snd (ArxivAnalyzerGemini_batch_loop prov k t n i ps acc s)) = next_addr s + length ps"
proof (induction ps arbitrary: i acc s)
  case Nil
  show ?case by simp
next
  case (Cons a ps)
  show ?case
    unfolding gemini_loop_Cons Cons.IH
    by (simp add: gemini_iter_fields)
qed

lemma gemini_loop_frame:
  "a < next_addr s \<Longrightarrow>
   heap (snd (ArxivAnalyzerGemini_batch_loop prov k t n i ps acc s)) a = heap s a"
proof (induction ps arbitrary: i acc s)
  case Nil
  show ?case by simp
next
  case (Cons b ps)
  have "heap (snd (ArxivAnalyzerGemini_batch_loop prov k t n (Suc i) ps (acc @ [next_addr s])
          (gemini_iter prov k t n i b s))) a = heap (gemini_iter prov k t n i b s) a"
    using Cons.prems by (intro Cons.IH) (simp add: gemini_iter_fields)
  also have "\<dots> = heap s a"
    using Cons.prems by (simp add: gemini_iter_fields)
  finally show ?case
    unfolding gemini_loop_Cons .
qed

lemma gemini_loop_sent:
  "\<forall>a\<in>set ps. a < next_addr s \<Longrightarrow>
   sent (snd (ArxivAnalyzerGemini_batch_loop prov k t n i ps acc s)) =
     sent s @ map (\<lambda>a. gemini_req (heap s a) k t) ps"
proof (induction ps arbitrary: i acc s)
  case Nil
  show ?case by simp
next
  case (Cons b ps)
  let ?s1 = "gemini_iter prov k t n i b s"
  have old: "\<forall>a\<in>set ps. heap ?s1 a = heap s a"
    using Cons.prems by (auto simp: gemini_iter_fields)
  have "sent (snd (ArxivAnalyzerGemini_batch_loop prov k t n (Suc i) ps (acc @ [next_addr s]) ?s1)) =
          sent ?s1 @ map (\<lambda>a. gemini_req (heap ?s1 a) k t) ps"
    using Cons.prems by (intro Cons.IH) (auto simp: gemini_iter_fields)
  also have "map (\<lambda>a. gemini_req (heap ?s1 a) k t) ps = map (\<lambda>a. gemini_req (heap s a) k t) ps"
    using old by (intro map_cong) simp_all
  finally show ?case
    unfolding gemini_loop_Cons by (simp add: gemini_iter_fields)
qed

lemma gemini_loop_heap:
  "\<forall>a\<in>set ps. a < next_addr s \<Longrightarrow>
   map (heap (snd (ArxivAnalyzerGemini_batch_loop prov k t n i ps acc s)))
       [next_addr s..<next_addr s + length ps] =
     map2 batch_entry (map (heap s) ps)
       (responses prov (map (\<lambda>a. gemini_req (heap s a) k t) ps) (backend s))"
proof (induction ps arbitrary: i acc s)
  case Nil
  show ?case by simp
next
  case (Cons b ps)
  let ?s1 = "gemini_iter prov k t n i b s"
  let ?R = "ArxivAnalyzerGemini_batch_loop prov k t n (Suc i) ps (acc @ [next_addr s]) ?s1"
  let ?req = "gemini_req (heap s b) k t"
  have old: "\<forall>a\<in>set ps. heap ?s1 a = heap s a"
    using Cons.prems by (auto simp: gemini_iter_fields)
  have valid: "\<forall>a\<in>set ps. a < next_addr ?s1"
    using Cons.prems by (auto simp: gemini_iter_fields)
  have reqs: "map (\<lambda>a. gemini_req (heap ?s1 a) k t) ps = map (\<lambda>a. gemini_req (heap s a) k t) ps"
    using old by (intro map_cong) simp_all
  have olds: "map (heap ?s1) ps = map (heap s) ps"
    using old by (intro map_cong) simp_all
  have tl: "map (heap (snd ?R)) [Suc (next_addr s)..<Suc (next_addr s) + length ps] =
      map2 batch_entry (map (heap s) ps)
        (responses prov (map (\<lambda>a. gemini_req (heap s a) k t) ps) (snd (prov (backend s) ?req)))"
    using Cons.IH [OF valid, of "Suc i" "acc @ [next_addr s]"]
    unfolding reqs olds
    by (simp add: gemini_iter_fields(1,3) del: upt_Suc)
  have hd: "heap (snd ?R) (next_addr s) = batch_entry (heap s b) (fst (prov (backend s) ?req))"
    by (simp add: gemini_loop_frame gemini_iter_fields)
  have upt: "[next_addr s..<next_addr s + length (b # ps)] =
      next_addr s # [Suc (next_addr s)..<Suc (next_addr s) + length ps]"
    using upt_shift [of "next_addr s" "length ps"] by simp
  show ?case
    unfolding gemini_loop_Cons upt
    using hd tl by (simp add: case_prod_beta del: upt_Suc)
qed

lemma length_responses: "length (responses prov reqs w) = length reqs"
  by (induction reqs arbitrary: w) (simp_all split: prod.split)

lemma gemini_loop_entry:
  assumes "\<forall>a\<in>set ps. a < next_addr s" and "j < length ps"
  shows "heap (snd (ArxivAnalyzerGemini_batch_loop prov k t n i ps acc s)) (next_addr s + j) =
           batch_entry (heap s (ps ! j))
             (responses prov (map (\<lambda>a. gemini_req (heap s a) k t) ps) (backend s) ! j)"
proof -
  let ?R = "ArxivAnalyzerGemini_batch_loop prov k t n i ps acc s"
  let ?rs = "responses prov (map (\<lambda>a. gemini_req (heap s a) k t) ps) (backend s)"
  have "map (heap (snd ?R)) [next_addr s..<next_addr s + length ps] ! j =
          map2 batch_entry (map (heap s) ps) ?rs ! j"
    using gemini_loop_heap [OF assms(1)] by simp
  then show ?thesis
    using assms(2) by (simp add: length_responses)
qed

lemma anthropic_analyze_None:
  "ArxivAnalyzer_analyze_paper prov paper analysis_type None s =
     call prov (anthropic_req paper analysis_type) s"
  by (simp add: ArxivAnalyzer_analyze_paper_def full_prompt_None anthropic_req_def)

lemma anthropic_loop_Cons:
  "ArxivAnalyzer_batch_loop prov analysis_type (a # rest) acc s =
     (case fst (prov (backend s) (anthropic_req (heap s a) analysis_type)) of
        Inl reason \<Rightarrow> (Inl (ProviderError reason), anthropic_iter prov analysis_type a s)
      | Inr answer \<Rightarrow>
          ArxivAnalyzer_batch_loop prov analysis_type rest (acc @ [next_addr s])
            (anthropic_iter prov analysis_type a s))"
proof -
  let ?s1 = "py_print (''Analyzing: '' @ take 60 (title (heap s a)) @ ''...'') s"
  let ?req = "anthropic_req (heap s a) analysis_type"
  obtain r w where p: "prov (backend s) ?req = (r, w)"
    by (cases "prov (backend s) ?req")
  show ?thesis
  proof (cases r)
    case (Inl reason)
    with p have "call prov ?req ?s1 =
        (Inl (ProviderError reason), ?s1\<lparr>backend := w, sent := sent ?s1 @ [?req]\<rparr>)"
      by (simp add: call_def py_print_def)
    with p Inl show ?thesis
      by (simp add: anthropic_analyze_None anthropic_iter_def Let_def)
  next
    case (Inr answer)
    with p have c: "call prov ?req ?s1 = (Inr answer, ?s1\<lparr>backend := w, sent := sent ?s1 @ [?req]\<rparr>)"
      by (simp add: call_def py_print_def)
    have "next_addr (?s1\<lparr>backend := w, sent := sent ?s1 @ [?req]\<rparr>) = next_addr s"
      by (simp add: py_print_def)
    with p Inr c show ?thesis
      by (simp add: anthropic_analyze_None anthropic_iter_def Let_def dict_copy_def
            split: prod.split)
  qed
qed

lemma anthropic_iter_fields:
  "backend (anthropic_iter prov k a s) = snd (prov (backend s) (anthropic_req (heap s a) k))"
  "sent (anthropic_iter prov k a s) = sent s @ [anthropic_req (heap s a) k]"
  "next_addr (anthropic_iter prov k a s) =
     (case fst (prov (backend s) (anthropic_req (heap s a) k)) of
        Inl reason \<Rightarrow> next_addr s | Inr answer \<Rightarrow> Suc (next_addr s))"
  "heap (anthropic_iter prov k a s) =
     (case fst (prov (backend s) (anthropic_req (heap s a) k)) of
        Inl reason \<Rightarrow> heap s
      | Inr answer \<Rightarrow> (heap s)(next_addr s := batch_entry (heap s a) (Inr answer)))"
  by (cases "prov (backend s) (anthropic_req (heap s a) k)";
      cases "fst (prov (backend s) (anthropic_req (heap s a) k))";
      simp add: anthropic_iter_def Let_def call_def py_print_def dict_copy_def set_analysis_def
        batch_entry_def)+

lemma anthropic_loop_frame:
  "a < next_addr s \<Longrightarrow> heap (snd (ArxivAnalyzer_batch_loop prov k ps acc s)) a = heap s a"
proof (induction ps arbitrary: acc s)
  case Nil
  show ?case by simp
next
  case (Cons b ps)
  let ?s1 = "anthropic_iter prov k b s"
  have h1: "heap ?s1 a = heap s a"
    using Cons.prems by (simp add: anthropic_iter_fields split: sum.split)
  have "a < next_addr ?s1"
    using Cons.prems by (simp add: anthropic_iter_fields split: sum.split)
  then have "heap (snd (ArxivAnalyzer_batch_loop prov k ps (acc @ [next_addr s]) ?s1)) a = heap ?s1 a"
    by (rule Cons.IH)
  with h1 show ?case
    unfolding anthropic_loop_Cons by (simp split: sum.split)
qed

lemma anthropic_loop_Inr:
  "\<forall>a\<in>set ps. a < next_addr s \<Longrightarrow>
   fst (ArxivAnalyzer_batch_loop prov k ps acc s) = Inr out \<Longrightarrow>
   out = acc @ [next_addr s..<next_addr s + length ps] \<and>
   map (heap (snd (ArxivAnalyzer_batch_loop prov k ps acc s)))
       [next_addr s..<next_addr s + length ps] =
     map2 batch_entry (map (heap s) ps)
       (responses prov (map (\<lambda>a. anthropic_req (heap s a) k) ps) (backend s))"
proof (induction ps arbitrary: acc s)
  case Nil
  then show ?case by simp
next
  case (Cons b ps)
  let ?s1 = "anthropic_iter prov k b s"
  let ?req = "anthropic_req (heap s b) k"
  let ?R = "ArxivAnalyzer_batch_loop prov k ps (acc @ [next_addr s]) ?s1"
  from Cons.prems(2) obtain answer where
    ans: "fst (prov (backend s) ?req) = Inr answer" and R: "fst ?R = Inr out"
    unfolding anthropic_loop_Cons by (auto split: sum.splits)
  have nx: "next_addr ?s1 = Suc (next_addr s)"
    by (simp add: anthropic_iter_fields ans)
  have hp: "heap ?s1 = (heap s)(next_addr s := batch_entry (heap s b) (Inr answer))"
    by (simp add: anthropic_iter_fields ans)
  have old: "\<forall>a\<in>set ps. heap ?s1 a = heap s a"
    using Cons.prems(1) by (auto simp: hp)
  have valid: "\<forall>a\<in>set ps. a < next_addr ?s1"
    using Cons.prems(1) by (auto simp: nx)
  have reqs: "map (\<lambda>a. anthropic_req (heap ?s1 a) k) ps = map (\<lambda>a. anthropic_req (heap s a) k) ps"
    using old by (intro map_cong) simp_all
  have olds: "map (heap ?s1) ps = map (heap s) ps"
    using old by (intro map_cong) simp_all
  note IH = Cons.IH [OF valid R]
  have out: "out = acc @ [next_addr s..<next_addr s + length (b # ps)]"
    using IH upt_shift [of "next_addr s" "length ps"] by (simp add: nx del: upt_Suc)
  have tl: "map (heap (snd ?R)) [Suc (next_addr s)..<Suc (next_addr s) + length ps] =
      map2 batch_entry (map (heap s) ps)
        (responses prov (map (\<lambda>a. anthropic_req (heap s a) k) ps) (snd (prov (backend s) ?req)))"
    using IH unfolding reqs olds
    by (simp add: anthropic_iter_fields(1) nx del: upt_Suc)
  have hd: "heap (snd ?R) (next_addr s) = batch_entry (heap s b) (fst (prov (backend s) ?req))"
    by (simp add: anthropic_loop_frame nx hp ans)
  have upt: "[next_addr s..<next_addr s + length (b # ps)] =
      next_addr s # [Suc (next_addr s)..<Suc (next_addr s) + length ps]"
    using upt_shift [of "next_addr s" "length ps"] by simp
  have "map (heap (snd (ArxivAnalyzer_batch_loop prov k (b # ps) acc s)))
       [next_addr s..<next_addr s + length (b # ps)] =
     map2 batch_entry (map (heap s) (b # ps))
       (responses prov (map (\<lambda>a. anthropic_req (heap s a) k) (b # ps)) (backend s))"
    unfolding anthropic_loop_Cons upt
    using hd tl ans by (simp add: case_prod_beta del: upt_Suc)
  with out show ?case by blast
qed

lemma summary_template_eq:
  "summary_template = ''Please provide a concise summary of this paper, highlighting the main contributions and findings.''"
  by (simp add: summary_template_def dict_get_def prompts_def)

lemma analysis_prompt_Some:
  "c \<noteq> [] \<Longrightarrow> analysis_prompt (Some c) k = Inr c"
  by (simp add: analysis_prompt_def)

lemma analysis_prompt_empty: "analysis_prompt (Some []) k = analysis_prompt None k"
  by (simp add: analysis_prompt_def)

lemma full_prompt_total:
  "\<exists>fp. full_prompt paper k c = Inr fp"
proof (cases c)
  case None
  then show ?thesis by (simp add: full_prompt_None)
next
  case (Some x)
  then show ?thesis
    by (cases "x = []")
       (simp_all add: full_prompt_def analysis_prompt_Some analysis_prompt_empty
          analysis_prompt_None)
qed

lemma call_sent: "sent (snd (call prov req s)) = sent s @ [req]"
  by (cases "prov (backend s) req"; cases "fst (prov (backend s) req)") (simp_all add: call_def)

lemma call_frame:
  "console (snd (call prov req s)) = console s"
  "heap (snd (call prov req s)) = heap s"
  "next_addr (snd (call prov req s)) = next_addr s"
  by (cases "prov (backend s) req"; cases "fst (prov (backend s) req)"; simp add: call_def)+

lemma call_backend: "backend (snd (call prov req s)) = snd (prov (backend s) req)"
  by (cases "prov (backend s) req"; cases "fst (prov (backend s) req)") (simp_all add: call_def)

lemma call_fst:
  "fst (call prov req s) =
     (case fst (prov (backend s) req) of
        Inl reason \<Rightarrow> Inl (ProviderError reason)
      | Inr answer \<Rightarrow> Inr answer)"
  by (cases "prov (backend s) req"; cases "fst (prov (backend s) req)") (simp_all add: call_def)

section \<open>Prompt construction\<close>

text \<open>
  C4. Building the prompt of a single paper is a function of the paper, the analysis type
  and the custom prompt alone: it yields one text \<open>fp\<close>, and in every state, with every
  backend and every temperature, \<open>analyze_paper\<close> of either analyzer sends exactly that
  text. Apart from the request itself (and the backend's own hidden state) nothing of the
  state changes: console, store and allocation pointer are as before.
\<close>

theorem prompt_construction_deterministic:
  "\<exists>fp. full_prompt paper analysis_type custom_prompt = Inr fp \<and>
     (\<forall>(prov :: 'w provider) s.
        sent (snd (ArxivAnalyzer_analyze_paper prov paper analysis_type custom_prompt s)) =
          sent s @ [MessagesCreate ''claude-sonnet-4-20250514'' 2000 [(''user'', fp)]] \<and>
        console (snd (ArxivAnalyzer_analyze_paper prov paper analysis_type custom_prompt s)) =
          console s \<and>
        heap (snd (ArxivAnalyzer_analyze_paper prov paper analysis_type custom_prompt s)) =
          heap s \<and>
        next_addr (snd (ArxivAnalyzer_analyze_paper prov paper analysis_type custom_prompt s)) =
          next_addr s) \<and>
     (\<forall>(prov :: 'w provider) temp s.
        sent (snd (ArxivAnalyzerGemini_analyze_paper prov paper analysis_type custom_prompt temp s)) =
          sent s @ [GenerateContent fp
            (Some \<lparr>temperature = temp, top_p = 0.95, top_k = 40, max_output_tokens = 2048\<rparr>)] \<and>
        console (snd (ArxivAnalyzerGemini_analyze_paper prov paper analysis_type custom_prompt temp s)) =
          console s \<and>
        heap (snd (ArxivAnalyzerGemini_analyze_paper prov paper analysis_type custom_prompt temp s)) =
          heap s \<and>
        next_addr (snd (ArxivAnalyzerGemini_analyze_paper prov paper analysis_type custom_prompt temp s)) =
          next_addr s)"
proof -
  obtain fp where fp: "full_prompt paper analysis_type custom_prompt = Inr fp"
    using full_prompt_total by blast
  show ?thesis
    by (rule exI [of _ fp])
       (simp add: fp ArxivAnalyzer_analyze_paper_def ArxivAnalyzerGemini_analyze_paper_def
          call_sent call_frame)
qed

text \<open>
  C5, as stated, fails: a custom prompt that is the empty string is supplied, yet the
  prompt for \<open>paper_A\<close> with analysis type \<open>critique\<close> ends with the critique template
  and not with the (empty) custom prompt.
\<close>

theorem empty_custom_prompt_counterexample:
  "full_prompt paper_A ''critique'' (Some '''') =
     Inr (paper_content paper_A @ ''\<newline>\<newline>'' @
          ''Provide a balanced critique of this paper, discussing both strengths and potential limitations.'') \<and>
   full_prompt paper_A ''critique'' (Some '''') \<noteq>
     Inr (paper_content paper_A @ ''\<newline>\<newline>'' @ '''')"
  by (simp add: full_prompt_def analysis_prompt_def dict_getitem_def dict_get_def prompts_def)

text \<open>
  C5, amended. For every paper and every analysis type, a non-empty custom prompt takes the
  place of the template of the analysis type: the prompt is the paper's header block, a
  blank line, and the custom prompt. An empty custom prompt counts as none.
\<close>

theorem custom_prompt_precedence:
  "(custom_prompt \<noteq> [] \<longrightarrow>
      full_prompt paper analysis_type (Some custom_prompt) =
        Inr (paper_content paper @ ''\<newline>\<newline>'' @ custom_prompt)) \<and>
   full_prompt paper analysis_type (Some []) = full_prompt paper analysis_type None"
  by (simp add: full_prompt_def analysis_prompt_Some analysis_prompt_empty)

text \<open>C5, amended, at \<open>paper_A\<close>, analysis type \<open>critique\<close> and a custom prompt.\<close>

theorem custom_prompt_precedence_witness:
  "''Explain the proofs.'' \<noteq> [] \<and>
   full_prompt paper_A ''critique'' (Some ''Explain the proofs.'') =
     Inr (paper_content paper_A @ ''\<newline>\<newline>'' @ ''Explain the proofs.'') \<and>
   full_prompt paper_A ''critique'' (Some ''Explain the proofs.'') \<noteq>
     full_prompt paper_A ''critique'' None"
  using custom_prompt_precedence [of "''Explain the proofs.''" paper_A "''critique''"]
  by (simp add: full_prompt_None dict_get_def prompts_def)

text \<open>
  C6. When the analysis type is none of the four keys of \<open>prompts\<close> and no custom prompt
  is given, building the prompt does not raise: it yields the prompt with the \<open>summary\<close>
  template, the same as analysis type \<open>summary\<close> does.
\<close>

theorem unknown_kind_falls_back_to_summary:
  "analysis_type \<notin> {''summary'', ''key_findings'', ''methodology'', ''critique''} \<Longrightarrow>
   full_prompt paper analysis_type None =
     Inr (paper_content paper @ ''\<newline>\<newline>'' @
          ''Please provide a concise summary of this paper, highlighting the main contributions and findings.'') \<and>
   full_prompt paper analysis_type None = full_prompt paper ''summary'' None"
  by (simp add: full_prompt_None summary_template_eq dict_get_def prompts_def)

text \<open>C6 at \<open>paper_A\<close> and the unknown analysis type \<open>sentiment\<close>.\<close>

theorem unknown_kind_falls_back_to_summary_witness:
  "''sentiment'' \<notin> {''summary'', ''key_findings'', ''methodology'', ''critique''} \<and>
   full_prompt paper_A ''sentiment'' None =
     Inr (paper_content paper_A @ ''\<newline>\<newline>'' @
          ''Please provide a concise summary of this paper, highlighting the main contributions and findings.'') \<and>
   full_prompt paper_A ''sentiment'' None = full_prompt paper_A ''summary'' None"
proof -
  have h: "''sentiment'' \<notin> {''summary'', ''key_findings'', ''methodology'', ''critique''}"
    by simp
  from unknown_kind_falls_back_to_summary [OF h, of paper_A] h show ?thesis
    by blast
qed

lemma papers_text_loop_eq:
  "papers_text_loop i papers acc =
     acc @ concat (map2 paper_block [i..<i + length papers] papers)"
proof (induction papers arbitrary: i acc)
  case Nil
  show ?case by simp
next
  case (Cons p ps)
  have "[i..<i + length (p # ps)] = i # [Suc i..<Suc i + length ps]"
    using upt_shift [of i "length ps"] by simp
  then show ?case
    by (simp add: Cons.IH paper_block_def del: upt_Suc)
qed

lemma sublist_concat_nth: "i < length xss \<Longrightarrow> sublist (xss ! i) (concat xss)"
proof -
  assume "i < length xss"
  then have "xss = take i xss @ xss ! i # drop (Suc i) xss"
    by (simp add: id_take_nth_drop)
  then have "concat xss = concat (take i xss) @ xss ! i @ concat (drop (Suc i) xss)"
    by (metis concat.simps(2) concat_append)
  then show ?thesis
    by (metis sublist_appendI)
qed

lemma paper_block_sublist:
  assumes "i < length papers"
  shows "sublist (paper_block (Suc i) (papers ! i)) (compare_prompt papers)"
proof -
  let ?blocks = "map2 paper_block [1..<1 + length papers] papers"
  have "?blocks ! i = paper_block (Suc i) (papers ! i)"
    using assms by (simp del: upt_Suc)
  moreover have "i < length ?blocks"
    using assms by (simp del: upt_Suc)
  ultimately have "sublist (paper_block (Suc i) (papers ! i)) (concat ?blocks)"
    using sublist_concat_nth [of i ?blocks] by simp
  then obtain pre post where "concat ?blocks = pre @ paper_block (Suc i) (papers ! i) @ post"
    by (auto simp: sublist_def)
  then have "compare_prompt papers =
      (''Here are '' @ str_nat (length papers) @
     '' research papers. Please compare them by:\<newline>\<newline>1. Identifying common themes and research directions\<newline>2. Highlighting key differences in approach or findings\<newline>3. Discussing how these papers relate to each other\<newline>4. Noting any complementary or contradictory findings\<newline>\<newline>Papers:\<newline>'' @ pre) @
      paper_block (Suc i) (papers ! i) @ (post @ ''\<newline>\<newline>Please provide a comparative analysis:'')"
    by (simp add: compare_prompt_def papers_text_loop_eq)
  then show ?thesis
    unfolding sublist_def by blast
qed

lemma directives_sublist:
  "sublist ''1. Identifying common themes and research directions'' (compare_prompt papers)"
  "sublist ''2. Highlighting key differences in approach or findings'' (compare_prompt papers)"
  "sublist ''3. Discussing how these papers relate to each other'' (compare_prompt papers)"
  "sublist ''4. Noting any complementary or contradictory findings'' (compare_prompt papers)"
proof -
  let ?a = "''Here are '' @ str_nat (length papers)"
  let ?z = "papers_text_loop 1 papers [] @ ''\<newline>\<newline>Please provide a comparative analysis:''"
  have 1: "compare_prompt papers =
      (?a @ '' research papers. Please compare them by:\<newline>\<newline>'') @
      ''1. Identifying common themes and research directions'' @
      (''\<newline>2. Highlighting key differences in approach or findings\<newline>3. Discussing how these papers relate to each other\<newline>4. Noting any complementary or contradictory findings\<newline>\<newline>Papers:\<newline>'' @ ?z)"
    by (simp add: compare_prompt_def)
  have 2: "compare_prompt papers =
      (?a @ '' research papers. Please compare them by:\<newline>\<newline>1. Identifying common themes and research directions\<newline>'') @
      ''2. Highlighting key differences in approach or findings'' @
      (''\<newline>3. Discussing how these papers relate to each other\<newline>4. Noting any complementary or contradictory findings\<newline>\<newline>Papers:\<newline>'' @ ?z)"
    by (simp add: compare_prompt_def)
  have 3: "compare_prompt papers =
      (?a @ '' research papers. Please compare them by:\<newline>\<newline>1. Identifying common themes and research directions\<newline>2. Highlighting key differences in approach or findings\<newline>'') @
      ''3. Discussing how these papers relate to each other'' @
      (''\<newline>4. Noting any complementary or contradictory findings\<newline>\<newline>Papers:\<newline>'' @ ?z)"
    by (simp add: compare_prompt_def)
  have 4: "compare_prompt papers =
      (?a @ '' research papers. Please compare them by:\<newline>\<newline>1. Identifying common themes and research directions\<newline>2. Highlighting key differences in approach or findings\<newline>3. Discussing how these papers relate to each other\<newline>'') @
      ''4. Noting any complementary or contradictory findings'' @
      (''\<newline>\<newline>Papers:\<newline>'' @ ?z)"
    by (simp add: compare_prompt_def)
  show "sublist ''1. Identifying common themes and research directions'' (compare_prompt papers)"
    unfolding sublist_def using 1 by blast
  show "sublist ''2. Highlighting key differences in approach or findings'' (compare_prompt papers)"
    unfolding sublist_def using 2 by blast
  show "sublist ''3. Discussing how these papers relate to each other'' (compare_prompt papers)"
    unfolding sublist_def using 3 by blast
  show "sublist ''4. Noting any complementary or contradictory findings'' (compare_prompt papers)"
    unfolding sublist_def using 4 by blast
qed

section \<open>Comparing papers\<close>

text \<open>
  C7. \<open>compare_papers\<close> of either analyzer raises \<open>ValueError("Need at least 2 papers to
  compare")\<close> exactly when it is given fewer than two papers, and then leaves the whole
  state as it was: no request is sent. Given two or more papers it builds the comparison
  prompt and sends exactly one request with it; what it returns is the outcome of that
  call, which is never a \<open>ValueError\<close>.
\<close>

theorem compare_papers_needs_two:
  "(length papers < 2 \<longrightarrow>
      ArxivAnalyzer_compare_papers prov papers s =
        (Inl (ValueError ''Need at least 2 papers to compare''), s) \<and>
      ArxivAnalyzerGemini_compare_papers prov papers temp s =
        (Inl (ValueError ''Need at least 2 papers to compare''), s)) \<and>
   (2 \<le> length papers \<longrightarrow>
      ArxivAnalyzer_compare_papers prov papers s =
        call prov (MessagesCreate ''claude-sonnet-4-20250514'' 3000
                     [(''user'', compare_prompt papers)]) s \<and>
      sent (snd (ArxivAnalyzer_compare_papers prov papers s)) =
        sent s @ [MessagesCreate ''claude-sonnet-4-20250514'' 3000
                    [(''user'', compare_prompt papers)]] \<and>
      ArxivAnalyzerGemini_compare_papers prov papers temp s =
        call prov (GenerateContent (compare_prompt papers)
          (Some \<lparr>temperature = temp, top_p = 0.95, top_k = 40, max_output_tokens = 3072\<rparr>)) s \<and>
      sent (snd (ArxivAnalyzerGemini_compare_papers prov papers temp s)) =
        sent s @ [GenerateContent (compare_prompt papers)
          (Some \<lparr>temperature = temp, top_p = 0.95, top_k = 40, max_output_tokens = 3072\<rparr>)]) \<and>
   ((\<exists>m. fst (ArxivAnalyzer_compare_papers prov papers s) = Inl (ValueError m)) \<longleftrightarrow>
      length papers < 2) \<and>
   ((\<exists>m. fst (ArxivAnalyzerGemini_compare_papers prov papers temp s) = Inl (ValueError m)) \<longleftrightarrow>
      length papers < 2)"
  by (auto simp: ArxivAnalyzer_compare_papers_def ArxivAnalyzerGemini_compare_papers_def
        call_sent call_fst split: sum.splits)


text \<open>C7 at one paper, and at two papers with the stub backend.\<close>

theorem compare_papers_needs_two_witness:
  "length [paper_A] < 2 \<and>
   ArxivAnalyzer_compare_papers stub_provider [paper_A] example_state =
     (Inl (ValueError ''Need at least 2 papers to compare''), example_state) \<and>
   ArxivAnalyzerGemini_compare_papers stub_provider [paper_A] 0.7 example_state =
     (Inl (ValueError ''Need at least 2 papers to compare''), example_state) \<and>
   2 \<le> length [paper_A, paper_B] \<and>
   fst (ArxivAnalyzer_compare_papers stub_provider [paper_A, paper_B] example_state) =
     Inr ''Text one.'' \<and>
   sent (snd (ArxivAnalyzer_compare_papers stub_provider [paper_A, paper_B] example_state)) =
     [MessagesCreate ''claude-sonnet-4-20250514'' 3000
        [(''user'', compare_prompt [paper_A, paper_B])]] \<and>
   fst (ArxivAnalyzerGemini_compare_papers stub_provider [paper_A, paper_B] 0.7 example_state) =
     Inr ''Text one.'' \<and>
   sent (snd (ArxivAnalyzerGemini_compare_papers stub_provider [paper_A, paper_B] 0.7
                example_state)) =
     [GenerateContent (compare_prompt [paper_A, paper_B])
        (Some \<lparr>temperature = 0.7, top_p = 0.95, top_k = 40, max_output_tokens = 3072\<rparr>)]"
  using compare_papers_needs_two [of "[paper_A]" stub_provider example_state "0.7"]
    compare_papers_needs_two [of "[paper_A, paper_B]" stub_provider example_state "0.7"]
  by (simp add: call_def stub_provider_def example_state_def)

text \<open>
  C8. For two or more papers the request of \<open>compare_papers\<close> carries one string,
  \<open>compare_prompt papers\<close>. It consists of a header, the blocks of the papers in input
  order, numbered from 1, and the closing line. The block of the \<open>i\<close>-th paper (number,
  title, comma-joined authors, abstract, and the delimiter line \<open>---\<close>) occurs in it, and
  so does each of the four directives.
\<close>

theorem compare_prompt_blocks_and_directives:
  "2 \<le> length papers \<Longrightarrow>
   sent (snd (ArxivAnalyzer_compare_papers prov papers s)) =
     sent s @ [MessagesCreate ''claude-sonnet-4-20250514'' 3000
                 [(''user'', compare_prompt papers)]] \<and>
   sent (snd (ArxivAnalyzerGemini_compare_papers prov papers temp s)) =
     sent s @ [GenerateContent (compare_prompt papers)
       (Some \<lparr>temperature = temp, top_p = 0.95, top_k = 40, max_output_tokens = 3072\<rparr>)] \<and>
   (\<exists>header. compare_prompt papers =
      header @ concat (map2 paper_block [1..<1 + length papers] papers) @
      ''\<newline>\<newline>Please provide a comparative analysis:'') \<and>
   (\<forall>i<length papers.
      sublist
        (''\<newline>Paper '' @ str_nat (Suc i) @
         '':\<newline>Title: '' @ title (papers ! i) @
         ''\<newline>Authors: '' @ join '', '' (authors (papers ! i)) @
         ''\<newline>Abstract: '' @ summary (papers ! i) @
         ''\<newline>\<newline>---\<newline>'')
        (compare_prompt papers)) \<and>
   sublist ''1. Identifying common themes and research directions'' (compare_prompt papers) \<and>
   sublist ''2. Highlighting key differences in approach or findings'' (compare_prompt papers) \<and>
   sublist ''3. Discussing how these papers relate to each other'' (compare_prompt papers) \<and>
   sublist ''4. Noting any complementary or contradictory findings'' (compare_prompt papers)"
proof -
  assume two: "2 \<le> length papers"
  have a: "sent (snd (ArxivAnalyzer_compare_papers prov papers s)) =
     sent s @ [MessagesCreate ''claude-sonnet-4-20250514'' 3000
                 [(''user'', compare_prompt papers)]]"
    using two by (simp add: ArxivAnalyzer_compare_papers_def call_sent)
  have g: "sent (snd (ArxivAnalyzerGemini_compare_papers prov papers temp s)) =
     sent s @ [GenerateContent (compare_prompt papers)
       (Some \<lparr>temperature = temp, top_p = 0.95, top_k = 40, max_output_tokens = 3072\<rparr>)]"
    using two by (simp add: ArxivAnalyzerGemini_compare_papers_def call_sent)
  have h: "\<exists>header. compare_prompt papers =
      header @ concat (map2 paper_block [1..<1 + length papers] papers) @
      ''\<newline>\<newline>Please provide a comparative analysis:''"
    by (rule exI [of _ "''Here are '' @ str_nat (length papers) @
     '' research papers. Please compare them by:\<newline>\<newline>1. Identifying common themes and research directions\<newline>2. Highlighting key differences in approach or findings\<newline>3. Discussing how these papers relate to each other\<newline>4. Noting any complementary or contradictory findings\<newline>\<newline>Papers:\<newline>''"])
       (simp add: compare_prompt_def papers_text_loop_eq del: upt_Suc)
  have b: "\<forall>i<length papers.
      sublist
        (''\<newline>Paper '' @ str_nat (Suc i) @
         '':\<newline>Title: '' @ title (papers ! i) @
         ''\<newline>Authors: '' @ join '', '' (authors (papers ! i)) @
         ''\<newline>Abstract: '' @ summary (papers ! i) @
         ''\<newline>\<newline>---\<newline>'')
        (compare_prompt papers)"
    using paper_block_sublist [of _ papers] by (simp add: paper_block_def)
  from a g h b directives_sublist [of papers] show ?thesis
    by blast
qed

text \<open>C8 at the papers \<open>paper_A\<close> and \<open>paper_B\<close>, with the prompt written out.\<close>

theorem compare_prompt_blocks_and_directives_witness:
  "2 \<le> length [paper_A, paper_B] \<and>
   compare_prompt [paper_A, paper_B] =
     ''Here are 2 research papers. Please compare them by:\<newline>\<newline>1. Identifying common themes and research directions\<newline>2. Highlighting key differences in approach or findings\<newline>3. Discussing how these papers relate to each other\<newline>4. Noting any complementary or contradictory findings\<newline>\<newline>Papers:\<newline>\<newline>Paper 1:\<newline>Title: Paper A\<newline>Authors: Ada, Alan\<newline>Abstract: Abstract A.\<newline>\<newline>---\<newline>\<newline>Paper 2:\<newline>Title: Paper B\<newline>Authors: Barbara\<newline>Abstract: Abstract B.\<newline>\<newline>---\<newline>\<newline>\<newline>Please provide a comparative analysis:'' \<and>
   sublist ''\<newline>Paper 2:\<newline>Title: Paper B\<newline>Authors: Barbara\<newline>Abstract: Abstract B.\<newline>\<newline>---\<newline>''
     (compare_prompt [paper_A, paper_B]) \<and>
   sublist ''4. Noting any complementary or contradictory findings''
     (compare_prompt [paper_A, paper_B])"
proof -
  have two: "2 \<le> length [paper_A, paper_B]"
    by simp
  have v: "compare_prompt [paper_A, paper_B] =
     ''Here are 2 research papers. Please compare them by:\<newline>\<newline>1. Identifying common themes and research directions\<newline>2. Highlighting key differences in approach or findings\<newline>3. Discussing how these papers relate to each other\<newline>4. Noting any complementary or contradictory findings\<newline>\<newline>Papers:\<newline>\<newline>Paper 1:\<newline>Title: Paper A\<newline>Authors: Ada, Alan\<newline>Abstract: Abstract A.\<newline>\<newline>---\<newline>\<newline>Paper 2:\<newline>Title: Paper B\<newline>Authors: Barbara\<newline>Abstract: Abstract B.\<newline>\<newline>---\<newline>\<newline>\<newline>Please provide a comparative analysis:''"
    by (simp add: compare_prompt_def paper_A_def paper_B_def str_nat.simps)
  have b: "''\<newline>Paper '' @ str_nat (Suc 1) @
         '':\<newline>Title: '' @ title ([paper_A, paper_B] ! 1) @
         ''\<newline>Authors: '' @ join '', '' (authors ([paper_A, paper_B] ! 1)) @
         ''\<newline>Abstract: '' @ summary ([paper_A, paper_B] ! 1) @
         ''\<newline>\<newline>---\<newline>'' =
       ''\<newline>Paper 2:\<newline>Title: Paper B\<newline>Authors: Barbara\<newline>Abstract: Abstract B.\<newline>\<newline>---\<newline>''"
    by (simp add: paper_B_def str_nat.simps)
  from compare_prompt_blocks_and_directives [OF two]
  have "\<forall>i<length [paper_A, paper_B].
      sublist
        (''\<newline>Paper '' @ str_nat (Suc i) @
         '':\<newline>Title: '' @ title ([paper_A, paper_B] ! i) @
         ''\<newline>Authors: '' @ join '', '' (authors ([paper_A, paper_B] ! i)) @
         ''\<newline>Abstract: '' @ summary ([paper_A, paper_B] ! i) @
         ''\<newline>\<newline>---\<newline>'')
        (compare_prompt [paper_A, paper_B])"
    and d: "sublist ''4. Noting any complementary or contradictory findings''
     (compare_prompt [paper_A, paper_B])"
    by blast+
  then have "sublist
        (''\<newline>Paper '' @ str_nat (Suc 1) @
         '':\<newline>Title: '' @ title ([paper_A, paper_B] ! 1) @
         ''\<newline>Authors: '' @ join '', '' (authors ([paper_A, paper_B] ! 1)) @
         ''\<newline>Abstract: '' @ summary ([paper_A, paper_B] ! 1) @
         ''\<newline>\<newline>---\<newline>'')
        (compare_prompt [paper_A, paper_B])"
    by (metis One_nat_def length_Cons lessI list.size(3))
  then have "sublist ''\<newline>Paper 2:\<newline>Title: Paper B\<newline>Authors: Barbara\<newline>Abstract: Abstract B.\<newline>\<newline>---\<newline>''
     (compare_prompt [paper_A, paper_B])"
    by (simp only: b)
  with two v d show ?thesis
    by blast
qed

section \<open>Concept extraction\<close>

text \<open>
  C9. \<open>extract_key_concepts\<close> sends one request, without a generation configuration,
  and returns the text that the backend generated as it is: a string, whatever the
  papers and \<open>max_concepts\<close> are. Nothing parses it into a mapping.
\<close>

theorem extract_key_concepts_returns_raw_text:
  "fst (prov (backend s) (GenerateContent (concepts_prompt papers max_concepts) None)) = Inr answer
   \<Longrightarrow> fst (ArxivAnalyzerGemini_extract_key_concepts prov papers max_concepts s) = Inr answer \<and>
       sent (snd (ArxivAnalyzerGemini_extract_key_concepts prov papers max_concepts s)) =
         sent s @ [GenerateContent (concepts_prompt papers max_concepts) None]"
  by (simp add: ArxivAnalyzerGemini_extract_key_concepts_def call_fst call_sent)

text \<open>C9 at two papers, \<open>max_concepts = 10\<close> and the stub backend.\<close>

theorem extract_key_concepts_returns_raw_text_witness:
  "fst (stub_provider (backend example_state)
          (GenerateContent (concepts_prompt [paper_A, paper_B] 10) None)) = Inr ''Text one.'' \<and>
   fst (ArxivAnalyzerGemini_extract_key_concepts stub_provider [paper_A, paper_B] 10 example_state) =
     Inr ''Text one.'' \<and>
   sent (snd (ArxivAnalyzerGemini_extract_key_concepts stub_provider [paper_A, paper_B] 10
                example_state)) =
     [GenerateContent (concepts_prompt [paper_A, paper_B] 10) None]"
proof -
  have h: "fst (stub_provider (backend example_state)
          (GenerateContent (concepts_prompt [paper_A, paper_B] 10) None)) = Inr ''Text one.''"
    by (simp add: stub_provider_def example_state_def)
  from extract_key_concepts_returns_raw_text
         [of stub_provider example_state "[paper_A, paper_B]" 10 "''Text one.''"] h
  show ?thesis
    by (simp add: example_state_def)
qed

lemma gemini_batch_fst:
  "fst (ArxivAnalyzerGemini_batch_analyze_papers prov papers k t s) =
     [next_addr s..<next_addr s + length papers]"
  by (simp add: ArxivAnalyzerGemini_batch_analyze_papers_def gemini_loop_fst)

lemma gemini_batch_nth:
  "i < length papers \<Longrightarrow>
   fst (ArxivAnalyzerGemini_batch_analyze_papers prov papers k t s) ! i = next_addr s + i"
  by (simp add: gemini_batch_fst)

lemma gemini_batch_sent:
  "\<forall>a\<in>set papers. a < next_addr s \<Longrightarrow>
   drop (length (sent s)) (sent (snd (ArxivAnalyzerGemini_batch_analyze_papers prov papers k t s))) =
     map (\<lambda>a. gemini_req (heap s a) k t) papers"
  by (simp add: ArxivAnalyzerGemini_batch_analyze_papers_def gemini_loop_sent)

lemma gemini_batch_entry:
  assumes "\<forall>a\<in>set papers. a < next_addr s" and "i < length papers"
  shows "heap (snd (ArxivAnalyzerGemini_batch_analyze_papers prov papers k t s))
           (fst (ArxivAnalyzerGemini_batch_analyze_papers prov papers k t s) ! i) =
         batch_entry (heap s (papers ! i))
           (responses prov
              (drop (length (sent s))
                 (sent (snd (ArxivAnalyzerGemini_batch_analyze_papers prov papers k t s))))
              (backend s) ! i)"
  unfolding gemini_batch_sent [OF assms(1)] gemini_batch_nth [OF assms(2)]
  unfolding ArxivAnalyzerGemini_batch_analyze_papers_def
  by (rule gemini_loop_entry [OF assms])

lemma gemini_req_full_prompt:
  "\<exists>fp. full_prompt paper k None = Inr fp \<and>
     gemini_req paper k t =
       GenerateContent fp
         (Some \<lparr>temperature = t, top_p = 0.95, top_k = 40, max_output_tokens = 2048\<rparr>)"
  by (simp add: full_prompt_None gemini_req_def)

section \<open>Batch analysis\<close>

text \<open>
  C3. \<open>ArxivAnalyzerGemini.analyze_paper\<close> sends one request, carrying the prompt of the
  paper, and when the backend answers it with a text, that text is what it returns.
  \<open>ArxivAnalyzerGemini.batch_analyze_papers\<close>, on papers that are allocated, returns as
  many entries as it got papers and sends one request per paper, the \<open>i\<close>-th one carrying
  the prompt of the \<open>i\<close>-th paper; whenever the backend's answer to the \<open>i\<close>-th request is
  a text, the \<open>analysis\<close> of the \<open>i\<close>-th entry is exactly that text.
\<close>

theorem provider_text_returned_verbatim:
  fixes prov :: "'w provider"
  defines "single \<equiv> \<lambda>paper k c t s. ArxivAnalyzerGemini_analyze_paper prov paper k c t s"
  defines "batch \<equiv> \<lambda>papers k t s. ArxivAnalyzerGemini_batch_analyze_papers prov papers k t s"
  defines "cfg \<equiv> \<lambda>t. Some \<lparr>temperature = t, top_p = 0.95, top_k = 40, max_output_tokens = 2048\<rparr>"
  shows
  "(\<exists>fp. full_prompt paper k c = Inr fp \<and>
      sent (snd (single paper k c t s)) = sent s @ [GenerateContent fp (cfg t)] \<and>
      (\<forall>answer. fst (prov (backend s) (GenerateContent fp (cfg t))) = Inr answer \<longrightarrow>
         fst (single paper k c t s) = Inr answer)) \<and>
   ((\<forall>a\<in>set papers. a < next_addr s) \<longrightarrow>
      length (fst (batch papers k t s)) = length papers \<and>
      length (drop (length (sent s)) (sent (snd (batch papers k t s)))) = length papers \<and>
      (\<forall>i<length papers.
         (\<exists>fp. full_prompt (heap s (papers ! i)) k None = Inr fp \<and>
            drop (length (sent s)) (sent (snd (batch papers k t s))) ! i =
              GenerateContent fp (cfg t)) \<and>
         (\<forall>answer.
            responses prov (drop (length (sent s)) (sent (snd (batch papers k t s)))) (backend s) ! i =
              Inr answer \<longrightarrow>
            analysis (heap (snd (batch papers k t s)) (fst (batch papers k t s) ! i)) =
              Some answer)))"
proof (intro conjI impI)
  obtain fp where fp: "full_prompt paper k c = Inr fp"
    using full_prompt_total by blast
  show "\<exists>fp. full_prompt paper k c = Inr fp \<and>
      sent (snd (single paper k c t s)) = sent s @ [GenerateContent fp (cfg t)] \<and>
      (\<forall>answer. fst (prov (backend s) (GenerateContent fp (cfg t))) = Inr answer \<longrightarrow>
         fst (single paper k c t s) = Inr answer)"
    by (rule exI [of _ fp])
       (simp add: fp single_def cfg_def ArxivAnalyzerGemini_analyze_paper_def call_sent call_fst)
next
  assume valid: "\<forall>a\<in>set papers. a < next_addr s"
  show "length (fst (batch papers k t s)) = length papers"
    by (simp add: batch_def gemini_batch_fst)
  show "length (drop (length (sent s)) (sent (snd (batch papers k t s)))) = length papers"
    unfolding batch_def gemini_batch_sent [OF valid] by simp
  show "\<forall>i<length papers.
         (\<exists>fp. full_prompt (heap s (papers ! i)) k None = Inr fp \<and>
            drop (length (sent s)) (sent (snd (batch papers k t s))) ! i =
              GenerateContent fp (cfg t)) \<and>
         (\<forall>answer.
            responses prov (drop (length (sent s)) (sent (snd (batch papers k t s)))) (backend s) ! i =
              Inr answer \<longrightarrow>
            analysis (heap (snd (batch papers k t s)) (fst (batch papers k t s) ! i)) =
              Some answer)"
  proof (intro allI impI conjI)
    fix i assume i: "i < length papers"
    show "\<exists>fp. full_prompt (heap s (papers ! i)) k None = Inr fp \<and>
            drop (length (sent s)) (sent (snd (batch papers k t s))) ! i =
              GenerateContent fp (cfg t)"
      unfolding batch_def cfg_def gemini_batch_sent [OF valid]
      using i gemini_req_full_prompt [of "heap s (papers ! i)" k t] by simp
  next
    fix i answer
    assume i: "i < length papers"
      and "responses prov (drop (length (sent s)) (sent (snd (batch papers k t s)))) (backend s) ! i =
              Inr answer"
    then show "analysis (heap (snd (batch papers k t s)) (fst (batch papers k t s) ! i)) =
              Some answer"
      unfolding batch_def
      by (simp add: gemini_batch_entry [OF valid i] batch_entry_def)
  qed
qed


lemmas run_defs =
  ArxivAnalyzerGemini_batch_analyze_papers_def ArxivAnalyzerGemini_analyze_paper_def
  ArxivAnalyzer_batch_analyze_papers_def ArxivAnalyzer_analyze_paper_def
  full_prompt_def analysis_prompt_def dict_getitem_def dict_get_def prompts_def
  call_def py_print_def dict_copy_def set_analysis_def Let_def
  stub_provider_def example_state_def

lemma example_valid: "\<forall>a\<in>set [0, 1, 2]. a < next_addr example_state"
  by (simp add: example_state_def)

lemma example_gemini_responses:
  "responses stub_provider
     (drop (length (sent example_state))
        (sent (snd (ArxivAnalyzerGemini_batch_analyze_papers stub_provider [0, 1, 2]
                      ''key_findings'' 0.7 example_state))))
     (backend example_state) =
   [Inr ''Text one.'', Inl ''quota exceeded'', Inr ''Text three.'']"
  by (simp add: run_defs)

text \<open>
  C3 at the three example papers, the stub backend failing on the second request: the
  third answer is a text, and the third entry carries it.
\<close>

theorem provider_text_returned_verbatim_witness:
  "0 < next_addr example_state \<and> 1 < next_addr example_state \<and>
   2 < next_addr example_state \<and>
   responses stub_provider
     (drop (length (sent example_state))
        (sent (snd (ArxivAnalyzerGemini_batch_analyze_papers stub_provider [0, 1, 2]
                      ''key_findings'' 0.7 example_state))))
     (backend example_state) ! 2 = Inr ''Text three.'' \<and>
   analysis
     (heap (snd (ArxivAnalyzerGemini_batch_analyze_papers stub_provider [0, 1, 2]
                   ''key_findings'' 0.7 example_state))
        (fst (ArxivAnalyzerGemini_batch_analyze_papers stub_provider [0, 1, 2]
                ''key_findings'' 0.7 example_state) ! 2)) = Some ''Text three.''"
proof -
  have r: "responses stub_provider
     (drop (length (sent example_state))
        (sent (snd (ArxivAnalyzerGemini_batch_analyze_papers stub_provider [0, 1, 2]
                      ''key_findings'' 0.7 example_state))))
     (backend example_state) ! 2 = Inr ''Text three.''"
    unfolding example_gemini_responses by simp
  have i: "2 < length [0, 1, 2 :: nat]"
    by simp
  have n: "0 < next_addr example_state" "1 < next_addr example_state"
    "2 < next_addr example_state"
    by (simp_all add: example_state_def)
  from provider_text_returned_verbatim
         [where papers = "[0, 1, 2]" and s = example_state and prov = stub_provider
            and k = "''key_findings''" and t = "0.7"]
       example_valid r i n
  show ?thesis
    by blast
qed

lemma batch_entry_frame: "batch_entry p r = p\<lparr>analysis := analysis (batch_entry p r)\<rparr>"
  by (simp add: batch_entry_def)

lemma batch_entry_analysis:
  "analysis (batch_entry p r) =
     Some (case r of Inl reason \<Rightarrow> ''Error: '' @ reason | Inr answer \<Rightarrow> answer)"
  by (simp add: batch_entry_def)

lemma gemini_batch_frame:
  "a < next_addr s \<Longrightarrow>
   heap (snd (ArxivAnalyzerGemini_batch_analyze_papers prov papers k t s)) a = heap s a"
  by (simp add: ArxivAnalyzerGemini_batch_analyze_papers_def gemini_loop_frame)

lemma anthropic_batch_frame:
  "a < next_addr s \<Longrightarrow>
   heap (snd (ArxivAnalyzer_batch_analyze_papers prov papers k s)) a = heap s a"
  by (simp add: ArxivAnalyzer_batch_analyze_papers_def anthropic_loop_frame)

lemma anthropic_batch_Inr:
  assumes "\<forall>a\<in>set papers. a < next_addr s"
    and "fst (ArxivAnalyzer_batch_analyze_papers prov papers k s) = Inr out"
  shows "out = [next_addr s..<next_addr s + length papers]"
    and "i < length papers \<Longrightarrow>
         heap (snd (ArxivAnalyzer_batch_analyze_papers prov papers k s)) (out ! i) =
           batch_entry (heap s (papers ! i))
             (responses prov (map (\<lambda>a. anthropic_req (heap s a) k) papers) (backend s) ! i)"
proof -
  note L = anthropic_loop_Inr [OF assms(1), of prov k "[]" out,
      folded ArxivAnalyzer_batch_analyze_papers_def, OF assms(2)]
  from L show out: "out = [next_addr s..<next_addr s + length papers]"
    by simp
  assume i: "i < length papers"
  let ?R = "ArxivAnalyzer_batch_analyze_papers prov papers k s"
  let ?rs = "responses prov (map (\<lambda>a. anthropic_req (heap s a) k) papers) (backend s)"
  from L have "map (heap (snd ?R)) [next_addr s..<next_addr s + length papers] ! i =
                 map2 batch_entry (map (heap s) papers) ?rs ! i"
    by simp
  then show "heap (snd ?R) (out ! i) = batch_entry (heap s (papers ! i)) (?rs ! i)"
    using i by (simp add: out length_responses)
qed

lemma anthropic_loop_raises:
  "\<forall>a\<in>set ps. a < next_addr s \<Longrightarrow>
   Inl reason \<in> set (responses prov (map (\<lambda>a. anthropic_req (heap s a) k) ps) (backend s)) \<Longrightarrow>
   \<exists>reason'. fst (ArxivAnalyzer_batch_loop prov k ps acc s) = Inl (ProviderError reason')"
proof (induction ps arbitrary: acc s)
  case Nil
  then show ?case by simp
next
  case (Cons b ps)
  let ?s1 = "anthropic_iter prov k b s"
  let ?req = "anthropic_req (heap s b) k"
  show ?case
  proof (cases "fst (prov (backend s) ?req)")
    case (Inl r)
    then show ?thesis
      unfolding anthropic_loop_Cons by simp
  next
    case (Inr answer)
    have nx: "next_addr ?s1 = Suc (next_addr s)"
      by (simp add: anthropic_iter_fields Inr)
    have hp: "heap ?s1 = (heap s)(next_addr s := batch_entry (heap s b) (Inr answer))"
      by (simp add: anthropic_iter_fields Inr)
    have old: "\<forall>a\<in>set ps. heap ?s1 a = heap s a"
      using Cons.prems(1) by (auto simp: hp)
    have valid: "\<forall>a\<in>set ps. a < next_addr ?s1"
      using Cons.prems(1) by (auto simp: nx)
    have reqs: "map (\<lambda>a. anthropic_req (heap ?s1 a) k) ps =
                map (\<lambda>a. anthropic_req (heap s a) k) ps"
      using old by (intro map_cong) simp_all
    have "Inl reason \<in> set (responses prov (map (\<lambda>a. anthropic_req (heap s a) k) ps)
                              (snd (prov (backend s) ?req)))"
      using Cons.prems(2) Inr by (auto simp: case_prod_beta)
    then have "Inl reason \<in> set (responses prov (map (\<lambda>a. anthropic_req (heap ?s1 a) k) ps)
                              (backend ?s1))"
      unfolding reqs by (simp add: anthropic_iter_fields(1))
    from Cons.IH [OF valid this] show ?thesis
      unfolding anthropic_loop_Cons by (simp add: Inr)
  qed
qed

text \<open>
  C10. Batch analysis of either analyzer, on papers that are allocated, changes no
  dictionary that existed before the call, so its input papers are as they were, also
  when \<open>ArxivAnalyzer\<close> raises. Every entry it returns is a newly allocated dictionary
  that equals the corresponding input paper in every field other than \<open>analysis\<close>.
\<close>

theorem batch_leaves_inputs_unchanged:
  fixes prov :: "'w provider" and papers :: "nat list" and k :: string and t :: real
    and s :: "'w state"
  defines "G \<equiv> ArxivAnalyzerGemini_batch_analyze_papers prov papers k t s"
  defines "A \<equiv> ArxivAnalyzer_batch_analyze_papers prov papers k s"
  assumes valid: "\<forall>a\<in>set papers. a < next_addr s"
  shows
  "(\<forall>a<next_addr s. heap (snd G) a = heap s a) \<and>
   (\<forall>i<length papers.
      next_addr s \<le> fst G ! i \<and>
      heap (snd G) (fst G ! i) =
        (heap s (papers ! i))\<lparr>analysis := analysis (heap (snd G) (fst G ! i))\<rparr>) \<and>
   (\<forall>a<next_addr s. heap (snd A) a = heap s a) \<and>
   (\<forall>out. fst A = Inr out \<longrightarrow>
      length out = length papers \<and>
      (\<forall>i<length papers.
         next_addr s \<le> out ! i \<and>
         heap (snd A) (out ! i) =
           (heap s (papers ! i))\<lparr>analysis := analysis (heap (snd A) (out ! i))\<rparr>))"
proof (intro conjI allI impI)
  fix a assume "a < next_addr s"
  then show "heap (snd G) a = heap s a" "heap (snd A) a = heap s a"
    by (simp_all add: G_def A_def gemini_batch_frame anthropic_batch_frame)
next
  fix i assume i: "i < length papers"
  show "next_addr s \<le> fst G ! i"
    using i by (simp add: G_def gemini_batch_nth)
  show "heap (snd G) (fst G ! i) =
        (heap s (papers ! i))\<lparr>analysis := analysis (heap (snd G) (fst G ! i))\<rparr>"
    unfolding G_def gemini_batch_entry [OF valid i]
    by (rule batch_entry_frame)
next
  fix out assume out: "fst A = Inr out"
  note I = anthropic_batch_Inr [OF valid out [unfolded A_def]]
  show "length out = length papers"
    using I(1) by simp
  fix i assume i: "i < length papers"
  show "next_addr s \<le> out ! i"
    using i I(1) by simp
  show "heap (snd A) (out ! i) =
           (heap s (papers ! i))\<lparr>analysis := analysis (heap (snd A) (out ! i))\<rparr>"
    unfolding A_def I(2) [OF i]
    by (rule batch_entry_frame)
qed


lemma example_heap_values:
  "heap example_state 0 = paper_A" "heap example_state 1 = paper_B"
  "(0::nat) < next_addr example_state" "(1::nat) < next_addr example_state"
  by (simp_all add: example_state_def example_heap_def)

lemma example_anthropic_single:
  "fst (ArxivAnalyzer_batch_analyze_papers stub_provider [0] ''key_findings'' example_state) =
     Inr [3]"
  by (simp add: run_defs)

text \<open>
  C10 at the three example papers for \<open>ArxivAnalyzerGemini\<close>, and at the first example
  paper alone, where the stub backend answers, for \<open>ArxivAnalyzer\<close>.
\<close>

theorem batch_leaves_inputs_unchanged_witness:
  "0 < next_addr example_state \<and> 1 < next_addr example_state \<and>
   2 < next_addr example_state \<and>
   heap (snd (ArxivAnalyzerGemini_batch_analyze_papers stub_provider [0, 1, 2]
                ''key_findings'' 0.7 example_state)) 1 = paper_B \<and>
   heap (snd (ArxivAnalyzerGemini_batch_analyze_papers stub_provider [0, 1, 2]
                ''key_findings'' 0.7 example_state))
     (fst (ArxivAnalyzerGemini_batch_analyze_papers stub_provider [0, 1, 2]
             ''key_findings'' 0.7 example_state) ! 1) =
     paper_B\<lparr>analysis :=
       analysis (heap (snd (ArxivAnalyzerGemini_batch_analyze_papers stub_provider [0, 1, 2]
                              ''key_findings'' 0.7 example_state))
                   (fst (ArxivAnalyzerGemini_batch_analyze_papers stub_provider [0, 1, 2]
                           ''key_findings'' 0.7 example_state) ! 1))\<rparr> \<and>
   fst (ArxivAnalyzer_batch_analyze_papers stub_provider [0] ''key_findings'' example_state) =
     Inr [3] \<and>
   heap (snd (ArxivAnalyzer_batch_analyze_papers stub_provider [0] ''key_findings''
                example_state)) 0 = paper_A \<and>
   heap (snd (ArxivAnalyzer_batch_analyze_papers stub_provider [0] ''key_findings''
                example_state)) ([3] ! 0) =
     paper_A\<lparr>analysis :=
       analysis (heap (snd (ArxivAnalyzer_batch_analyze_papers stub_provider [0] ''key_findings''
                              example_state)) ([3] ! 0))\<rparr>"
proof -
  let ?G = "ArxivAnalyzerGemini_batch_analyze_papers stub_provider [0, 1, 2]
              ''key_findings'' 0.7 example_state"
  let ?A = "ArxivAnalyzer_batch_analyze_papers stub_provider [0] ''key_findings'' example_state"
  have v1: "\<forall>a\<in>set [0]. a < next_addr example_state"
    by (simp add: example_state_def)
  note T3 = batch_leaves_inputs_unchanged
    [where papers = "[0, 1, 2]" and s = example_state and prov = stub_provider
       and k = "''key_findings''" and t = "0.7", OF example_valid]
  note T1 = batch_leaves_inputs_unchanged
    [where papers = "[0]" and s = example_state and prov = stub_provider
       and k = "''key_findings''" and t = "0.7", OF v1]
  have i1: "1 < length [0, 1, 2 :: nat]" and i0: "0 < length [0 :: nat]"
    by simp_all
  have p1: "[0, 1, 2 :: nat] ! 1 = 1" and p0: "[0 :: nat] ! 0 = 0"
    by simp_all
  from T3 example_heap_values(4) have g1: "heap (snd ?G) 1 = heap example_state 1"
    by blast
  from T3 i1 have g2: "heap (snd ?G) (fst ?G ! 1) =
      (heap example_state ([0, 1, 2] ! 1))\<lparr>analysis := analysis (heap (snd ?G) (fst ?G ! 1))\<rparr>"
    by blast
  from T1 example_heap_values(3) have a1: "heap (snd ?A) 0 = heap example_state 0"
    by blast
  from T1 example_anthropic_single i0 have a2: "heap (snd ?A) ([3] ! 0) =
      (heap example_state ([0] ! 0))\<lparr>analysis := analysis (heap (snd ?A) ([3] ! 0))\<rparr>"
    by blast
  have n: "0 < next_addr example_state" "1 < next_addr example_state"
    "2 < next_addr example_state"
    by (simp_all add: example_state_def)
  from n example_anthropic_single
    g1 [unfolded example_heap_values] g2 [unfolded p1 example_heap_values]
    a1 [unfolded example_heap_values] a2 [unfolded p0 example_heap_values]
  show ?thesis
    by blast
qed

text \<open>
  C1 fails for \<open>ArxivAnalyzer.batch_analyze_papers\<close>: with three papers and a backend that
  fails on the second request, it returns no sequence at all, the exception of the
  backend leaves the function. (\<open>ArxivAnalyzerGemini\<close> does return one entry per paper,
  see \<open>gemini_batch_one_entry_per_paper\<close> below.)
\<close>

theorem anthropic_batch_raises_on_provider_failure:
  "fst (ArxivAnalyzer_batch_analyze_papers stub_provider [0, 1, 2] ''key_findings''
          example_state) = Inl (ProviderError ''quota exceeded'')"
  by (simp add: run_defs)

text \<open>
  C2 fails for \<open>ArxivAnalyzer.batch_analyze_papers\<close>: in the same run the batch is
  aborted at the second paper. Two requests were sent and two progress lines printed;
  the third paper is never analysed, and the entry already built for the first paper is
  not returned. (\<open>ArxivAnalyzerGemini\<close> catches the failure and continues, see
  \<open>gemini_batch_isolates_failures\<close> below.)
\<close>

theorem anthropic_batch_stops_at_failed_paper:
  "length (sent (snd (ArxivAnalyzer_batch_analyze_papers stub_provider [0, 1, 2]
                        ''key_findings'' example_state))) = 2 \<and>
   console (snd (ArxivAnalyzer_batch_analyze_papers stub_provider [0, 1, 2]
                   ''key_findings'' example_state)) =
     [''Analyzing: Paper A...'', ''Analyzing: Paper B...''] \<and>
   (\<forall>out. fst (ArxivAnalyzer_batch_analyze_papers stub_provider [0, 1, 2]
                  ''key_findings'' example_state) \<noteq> Inr out)"
  by (simp add: run_defs example_heap_def paper_A_def paper_B_def)

text \<open>
  \<open>ArxivAnalyzerGemini.batch_analyze_papers\<close> returns one entry per paper, in input
  order, each a copy of its paper with the \<open>analysis\<close> set.
\<close>

lemma gemini_batch_one_entry_per_paper:
  fixes prov :: "'w provider" and papers :: "nat list" and k :: string and t :: real
    and s :: "'w state"
  defines "G \<equiv> ArxivAnalyzerGemini_batch_analyze_papers prov papers k t s"
  assumes valid: "\<forall>a\<in>set papers. a < next_addr s"
  shows "length (fst G) = length papers \<and>
    (\<forall>i<length papers.
       heap (snd G) (fst G ! i) =
         (heap s (papers ! i))\<lparr>analysis := analysis (heap (snd G) (fst G ! i))\<rparr> \<and>
       analysis (heap (snd G) (fst G ! i)) \<noteq> None)"
proof (intro conjI allI impI)
  show "length (fst G) = length papers"
    by (simp add: G_def gemini_batch_fst)
  fix i assume i: "i < length papers"
  show "heap (snd G) (fst G ! i) =
         (heap s (papers ! i))\<lparr>analysis := analysis (heap (snd G) (fst G ! i))\<rparr>"
    unfolding G_def gemini_batch_entry [OF valid i] by (rule batch_entry_frame)
  show "analysis (heap (snd G) (fst G ! i)) \<noteq> None"
    unfolding G_def gemini_batch_entry [OF valid i] by (simp add: batch_entry_analysis)
qed

text \<open>
  \<open>ArxivAnalyzerGemini.batch_analyze_papers\<close> sends one request per paper whatever the
  answers are; the \<open>analysis\<close> of an entry is the backend's text, or \<open>"Error: "\<close>
  followed by the reason when the backend failed on that paper.
\<close>

lemma gemini_batch_isolates_failures:
  fixes prov :: "'w provider" and papers :: "nat list" and k :: string and t :: real
    and s :: "'w state"
  defines "G \<equiv> ArxivAnalyzerGemini_batch_analyze_papers prov papers k t s"
  defines "answers \<equiv> responses prov (drop (length (sent s)) (sent (snd G))) (backend s)"
  assumes valid: "\<forall>a\<in>set papers. a < next_addr s"
  shows "length answers = length papers \<and>
    (\<forall>i<length papers.
       analysis (heap (snd G) (fst G ! i)) =
         Some (case answers ! i of Inl reason \<Rightarrow> ''Error: '' @ reason | Inr answer \<Rightarrow> answer))"
proof (intro conjI allI impI)
  show "length answers = length papers"
    unfolding answers_def G_def gemini_batch_sent [OF valid] by (simp add: length_responses)
  fix i assume i: "i < length papers"
  show "analysis (heap (snd G) (fst G ! i)) =
         Some (case answers ! i of Inl reason \<Rightarrow> ''Error: '' @ reason | Inr answer \<Rightarrow> answer)"
    unfolding G_def answers_def gemini_batch_entry [OF valid i]
    by (rule batch_entry_analysis)
qed

text \<open>
  \<open>ArxivAnalyzer.batch_analyze_papers\<close> raises as soon as one answer of the backend is a
  failure.
\<close>

lemma anthropic_batch_raises:
  "\<forall>a\<in>set papers. a < next_addr s \<Longrightarrow>
   Inl reason \<in> set (responses prov (map (\<lambda>a. anthropic_req (heap s a) k) papers) (backend s)) \<Longrightarrow>
   \<exists>reason'. fst (ArxivAnalyzer_batch_analyze_papers prov papers k s) =
     Inl (ProviderError reason')"
  unfolding ArxivAnalyzer_batch_analyze_papers_def by (rule anthropic_loop_raises)

end
